theory Spec2Isabelle
  imports Complex_Main
begin

section \<open>Image cache preferences: the capacity configuration of mmSolver\<close>

text \<open>
  A shallow embedding of
  \<^verbatim>\<open>python/mmSolver/tools/imagecacheprefs/ui/imagecacheprefs_layout.py\<close>.

  Python floats are idealised as \<^typ>\<open>real\<close>: the rounding of IEEE doubles, NaN and
  the infinities are outside the embedding. Python's unbounded integers are \<^typ>\<open>int\<close>.
  A raised exception is a value: every fallible function returns \<open>error + 'a\<close> with
  \<open>Inl\<close> for the exception.
\<close>

subsection \<open>Python values, exceptions and arithmetic\<close>

text \<open>The values a JSON configuration file or a scene option can hold.\<close>

datatype pyval = PyNone | PyBool bool | PyInt int | PyFloat real | PyStr string

datatype error = AssertionError | ZeroDivisionError

definition bind_result :: "error + 'a \<Rightarrow> ('a \<Rightarrow> error + 'b) \<Rightarrow> error + 'b" where
  "bind_result r f = (case r of Inl e \<Rightarrow> Inl e | Inr a \<Rightarrow> f a)"

text \<open>\<^verbatim>\<open>int(x)\<close> on a float truncates toward zero.\<close>

definition py_int :: "real \<Rightarrow> int" where
  "py_int x = (if x < 0 then \<lceil>x\<rceil> else \<lfloor>x\<rfloor>)"

text \<open>\<^verbatim>\<open>a / b\<close> raises \<^verbatim>\<open>ZeroDivisionError\<close> when \<^verbatim>\<open>b\<close> is zero.\<close>

definition py_truediv :: "real \<Rightarrow> real \<Rightarrow> error + real" where
  "py_truediv a b = (if b = 0 then Inl ZeroDivisionError else Inr (a / b))"

text \<open>\<^verbatim>\<open>isinstance(v, bool)\<close> and \<^verbatim>\<open>v is True\<close>.\<close>

definition isinstance_bool :: "pyval \<Rightarrow> bool" where
  "isinstance_bool v = (case v of PyBool _ \<Rightarrow> True | _ \<Rightarrow> False)"

definition is_True :: "pyval \<Rightarrow> bool" where
  "is_True v = (v = PyBool True)"

subsection \<open>What the module imports\<close>

text \<open>
  The constants of \<^verbatim>\<open>mmSolver.tools.imagecacheprefs.constant\<close> and of
  \<^verbatim>\<open>mmSolver.utils.constant\<close>, and \<^verbatim>\<open>mmSolver.utils.math.remap\<close>, are not part of
  the sources at hand: they are parameters of the embedding, and every function that
  reads one takes the record as its first argument.
\<close>

record modules =
  CONFIG_UPDATE_EVERY_N_SECONDS_KEY :: string
  CONFIG_UPDATE_EVERY_N_SECONDS_DEFAULT_VALUE :: int
  CONFIG_GPU_CAPACITY_PERCENT_KEY :: string
  CONFIG_CPU_CAPACITY_PERCENT_KEY :: string
  CONFIG_SCENE_CAPACITY_OVERRIDE_KEY :: string
  CONFIG_SCENE_GPU_CAPACITY_PERCENT_KEY :: string
  CONFIG_SCENE_CPU_CAPACITY_PERCENT_KEY :: string
  BYTES_TO_GIGABYTES :: real
  remap :: "real \<Rightarrow> real \<Rightarrow> real \<Rightarrow> real \<Rightarrow> real \<Rightarrow> error + real"

text \<open>
  Modelled from the spec: \<^verbatim>\<open>mmSolver.tools.imagecache.lib\<close> (the image cache itself)
  is missing. Section 6 of the specification lists its queries
  (\<^verbatim>\<open>get_pool_total_bytes\<close>, \<^verbatim>\<open>get_pool_used_bytes\<close>, \<^verbatim>\<open>get_pool_capacity_bytes\<close>,
  \<^verbatim>\<open>get_pool_item_count\<close>, \<^verbatim>\<open>get_pool_group_count\<close> for the GPU and the CPU pool).
  Each field is what the query of that name answers when it is called, an unsigned
  number as in the specification; the record as a whole is the observable state of the
  cache and of the machine's memory.
\<close>

record cache_lib =
  get_gpu_cache_item_count :: nat
  get_cpu_cache_item_count :: nat
  get_gpu_cache_group_count :: nat
  get_cpu_cache_group_count :: nat
  get_gpu_cache_used_bytes :: nat
  get_cpu_cache_used_bytes :: nat
  get_gpu_cache_capacity_bytes :: nat
  get_cpu_cache_capacity_bytes :: nat
  get_gpu_memory_total_bytes :: nat
  get_cpu_memory_total_bytes :: nat
  get_gpu_memory_used_bytes :: nat
  get_cpu_memory_used_bytes :: nat

text \<open>
  Modelled from the spec: \<^verbatim>\<open>mmSolver.utils.config.Config\<close> is missing. Section 6
  of the specification describes the persisted user-scope configuration as a file that
  outlives any document: a \<^verbatim>\<open>Config\<close> object holds the file's entries, a key-value
  store.
\<close>

type_synonym config = "string \<rightharpoonup> pyval"

text \<open>
  The world outside the widget: the configuration file in the home directory
  (\<open>None\<close> when there is no such file), the options of the open scene, and the cache.
\<close>

record world =
  config_file :: "config option"
  scene :: "string \<rightharpoonup> pyval"
  lib :: cache_lib

text \<open>
  Modelled from the spec: the methods \<^verbatim>\<open>Config.get_value\<close>, \<^verbatim>\<open>Config.set_value\<close>
  and \<^verbatim>\<open>Config.write\<close> are missing. \<^verbatim>\<open>get_value(key, fallback)\<close> answers the stored
  entry or else the fallback, \<^verbatim>\<open>set_value\<close> stores an entry in the object, and
  \<^verbatim>\<open>write\<close> makes the object's entries the content of the file.
\<close>

definition config_get_value :: "config \<Rightarrow> string \<Rightarrow> pyval \<Rightarrow> pyval" where
  "config_get_value c key fallback = (case c key of None \<Rightarrow> fallback | Some v \<Rightarrow> v)"

definition config_set_value :: "config \<Rightarrow> string \<Rightarrow> pyval \<Rightarrow> config" where
  "config_set_value c key v = c(key \<mapsto> v)"

definition config_write :: "config \<Rightarrow> world \<Rightarrow> world" where
  "config_write c w = w\<lparr>config_file := Some c\<rparr>"

text \<open>
  Modelled from the spec: \<^verbatim>\<open>mmSolver.utils.configmaya\<close> is missing. Section 6 of the
  specification describes the document-scope options as persisted with the document:
  \<^verbatim>\<open>get_scene_option(name, default)\<close> answers the option stored in the scene or else
  the default, \<^verbatim>\<open>set_scene_option(name, value, add_attr=True)\<close> stores it.
\<close>

definition get_scene_option :: "world \<Rightarrow> string \<Rightarrow> pyval \<Rightarrow> pyval" where
  "get_scene_option w name fallback = (case scene w name of None \<Rightarrow> fallback | Some v \<Rightarrow> v)"

definition set_scene_option :: "string \<Rightarrow> pyval \<Rightarrow> world \<Rightarrow> world" where
  "set_scene_option name v w = w\<lparr>scene := (scene w)(name \<mapsto> v)\<rparr>"

subsection \<open>Reading the configuration\<close>

record CapacityValue =
  size_bytes :: int
  percent :: real

text \<open>
  \<^verbatim>\<open>get_config\<close> always answers a \<^verbatim>\<open>Config\<close> object; the file is read only when it
  exists.
\<close>

definition get_config :: "world \<Rightarrow> config option" where
  "get_config w = Some (case config_file w of None \<Rightarrow> Map.empty | Some c \<Rightarrow> c)"

definition get_config_value :: "config option \<Rightarrow> string \<Rightarrow> pyval \<Rightarrow> pyval" where
  "get_config_value config key fallback =
     (case config of None \<Rightarrow> fallback | Some c \<Rightarrow> config_get_value c key fallback)"

text \<open>\<^verbatim>\<open>isinstance(seconds, int)\<close> accepts a bool, which Python counts as 0 or 1.\<close>

definition get_update_every_n_seconds ::
    "modules \<Rightarrow> config option \<Rightarrow> int option \<Rightarrow> error + int" where
  "get_update_every_n_seconds X config default_value =
     (let default_value =
            (case default_value of
               None \<Rightarrow> CONFIG_UPDATE_EVERY_N_SECONDS_DEFAULT_VALUE X
             | Some d \<Rightarrow> d);
          name = CONFIG_UPDATE_EVERY_N_SECONDS_KEY X;
          seconds = get_config_value config name (PyInt default_value)
      in case seconds of
           PyInt n \<Rightarrow> Inr n
         | PyBool b \<Rightarrow> Inr (if b then 1 else 0)
         | _ \<Rightarrow> Inl AssertionError)"

text \<open>
  The source defines \<^verbatim>\<open>get_gpu_cache_capacity_percent_default\<close> twice, with the same
  body. The percent must be a float; the bytes are \<^verbatim>\<open>int(capacity_bytes * ratio)\<close> of
  the memory total that the cache reports at the time of the call.
\<close>

definition get_gpu_cache_capacity_percent_default ::
    "modules \<Rightarrow> config option \<Rightarrow> real option \<Rightarrow> world \<Rightarrow> error + CapacityValue" where
  "get_gpu_cache_capacity_percent_default X config default_value w =
     (let default_value = (case default_value of None \<Rightarrow> 0 | Some d \<Rightarrow> d);
          name = CONFIG_GPU_CAPACITY_PERCENT_KEY X
      in case get_config_value config name (PyFloat default_value) of
           PyFloat p \<Rightarrow>
             (let ratio = p / 100;
                  capacity_bytes = int (get_gpu_memory_total_bytes (lib w))
              in Inr \<lparr>size_bytes = py_int (real_of_int capacity_bytes * ratio), percent = p\<rparr>)
         | _ \<Rightarrow> Inl AssertionError)"

definition get_cpu_cache_capacity_percent_default ::
    "modules \<Rightarrow> config option \<Rightarrow> real option \<Rightarrow> world \<Rightarrow> error + CapacityValue" where
  "get_cpu_cache_capacity_percent_default X config default_value w =
     (let default_value = (case default_value of None \<Rightarrow> 0 | Some d \<Rightarrow> d);
          name = CONFIG_CPU_CAPACITY_PERCENT_KEY X
      in case get_config_value config name (PyFloat default_value) of
           PyFloat p \<Rightarrow>
             (let ratio = p / 100;
                  capacity_bytes = int (get_cpu_memory_total_bytes (lib w))
              in Inr \<lparr>size_bytes = py_int (real_of_int capacity_bytes * ratio), percent = p\<rparr>)
         | _ \<Rightarrow> Inl AssertionError)"

text \<open>The scene's override flag: the stored option, or \<^verbatim>\<open>None\<close> when there is none.\<close>

definition get_cache_scene_override :: "modules \<Rightarrow> world \<Rightarrow> error + pyval" where
  "get_cache_scene_override X w =
     (let name = CONFIG_SCENE_CAPACITY_OVERRIDE_KEY X;
          v = get_scene_option w name PyNone
      in if v = PyNone \<or> isinstance_bool v then Inr v else Inl AssertionError)"

definition get_gpu_cache_capacity_percent_scene ::
    "modules \<Rightarrow> real option \<Rightarrow> world \<Rightarrow> error + CapacityValue" where
  "get_gpu_cache_capacity_percent_scene X default_value w =
     (let default_value = (case default_value of None \<Rightarrow> 0 | Some d \<Rightarrow> d);
          name = CONFIG_SCENE_GPU_CAPACITY_PERCENT_KEY X
      in case get_scene_option w name (PyFloat default_value) of
           PyFloat p \<Rightarrow>
             (let ratio = p / 100;
                  capacity_bytes = int (get_gpu_memory_total_bytes (lib w))
              in Inr \<lparr>size_bytes = py_int (real_of_int capacity_bytes * ratio), percent = p\<rparr>)
         | _ \<Rightarrow> Inl AssertionError)"

definition get_cpu_cache_capacity_percent_scene ::
    "modules \<Rightarrow> real option \<Rightarrow> world \<Rightarrow> error + CapacityValue" where
  "get_cpu_cache_capacity_percent_scene X default_value w =
     (let default_value = (case default_value of None \<Rightarrow> 0 | Some d \<Rightarrow> d);
          name = CONFIG_SCENE_CPU_CAPACITY_PERCENT_KEY X
      in case get_scene_option w name (PyFloat default_value) of
           PyFloat p \<Rightarrow>
             (let ratio = p / 100;
                  capacity_bytes = int (get_cpu_memory_total_bytes (lib w))
              in Inr \<lparr>size_bytes = py_int (real_of_int capacity_bytes * ratio), percent = p\<rparr>)
         | _ \<Rightarrow> Inl AssertionError)"

subsection \<open>Writing the scene options\<close>

text \<open>
  \<^verbatim>\<open>set_cache_scene_override\<close> asserts that its argument is \<^verbatim>\<open>None\<close> or a bool; the
  two percent setters assert a float, which the argument's type says here.
\<close>

definition set_cache_scene_override :: "modules \<Rightarrow> pyval \<Rightarrow> world \<Rightarrow> error + world" where
  "set_cache_scene_override X v w =
     (if v = PyNone \<or> isinstance_bool v
      then Inr (set_scene_option (CONFIG_SCENE_CAPACITY_OVERRIDE_KEY X) v w)
      else Inl AssertionError)"

definition set_gpu_cache_capacity_percent_scene :: "modules \<Rightarrow> real \<Rightarrow> world \<Rightarrow> world" where
  "set_gpu_cache_capacity_percent_scene X p w =
     set_scene_option (CONFIG_SCENE_GPU_CAPACITY_PERCENT_KEY X) (PyFloat p) w"

definition set_cpu_cache_capacity_percent_scene :: "modules \<Rightarrow> real \<Rightarrow> world \<Rightarrow> world" where
  "set_cpu_cache_capacity_percent_scene X p w =
     set_scene_option (CONFIG_SCENE_CPU_CAPACITY_PERCENT_KEY X) (PyFloat p) w"

subsection \<open>Widgets\<close>

text \<open>
  A \<^verbatim>\<open>QLabel\<close> is the text it shows, kept as the format and its arguments:
  \<^verbatim>\<open>'<b>{:0,.2f} GB</b>'\<close>, \<^verbatim>\<open>'<b>{:0,.2f} GB ({:3.1f}%)</b>'\<close> and \<^verbatim>\<open>'<b>{:,}</b>'\<close>.
  A \<^verbatim>\<open>QSlider\<close> is its range and its position, a \<^verbatim>\<open>QDoubleSpinBox\<close> the number it
  holds. A setter stores what it is given; what Qt does on its side (bounding a number to
  the widget's range, emitting the change signals) is outside the embedding, and so are
  the handlers that the layout connects to those signals.
\<close>

datatype QLabel = NoText | GigabytesText real | UsedText real real | CountText int

record QSlider =
  minimum :: int
  maximum :: int
  position :: int

type_synonym QDoubleSpinBox = real

definition set_memory_total_label :: "modules \<Rightarrow> QLabel \<Rightarrow> int \<Rightarrow> error + QLabel" where
  "set_memory_total_label X label size_bytes' =
     bind_result
       (if size_bytes' > 0 then py_truediv (real_of_int size_bytes') (BYTES_TO_GIGABYTES X)
        else Inr 0)
       (\<lambda>gigabytes. Inr (GigabytesText gigabytes))"

definition set_memory_used_label :: "modules \<Rightarrow> QLabel \<Rightarrow> int \<Rightarrow> int \<Rightarrow> error + QLabel" where
  "set_memory_used_label X label used_size_bytes total_size_bytes =
     bind_result
       (if used_size_bytes > 0
        then py_truediv (real_of_int used_size_bytes) (BYTES_TO_GIGABYTES X)
        else Inr 0)
       (\<lambda>used_gigabytes.
     bind_result
       (if used_size_bytes > 0 \<and> total_size_bytes > 0
        then bind_result
               (py_truediv (real_of_int used_size_bytes) (real_of_int total_size_bytes))
               (\<lambda>q. Inr (q * 100))
        else Inr 0)
       (\<lambda>used_percent. Inr (UsedText used_gigabytes used_percent)))"

definition set_count_label :: "QLabel \<Rightarrow> int \<Rightarrow> QLabel" where
  "set_count_label label n = CountText n"

definition set_capacity_size_label :: "modules \<Rightarrow> QLabel \<Rightarrow> int \<Rightarrow> error + QLabel" where
  "set_capacity_size_label X label size_bytes' =
     bind_result
       (if size_bytes' > 0 then py_truediv (real_of_int size_bytes') (BYTES_TO_GIGABYTES X)
        else Inr 0)
       (\<lambda>gigabytes. Inr (GigabytesText gigabytes))"

definition set_used_size_label :: "modules \<Rightarrow> QLabel \<Rightarrow> int \<Rightarrow> int \<Rightarrow> error + QLabel" where
  "set_used_size_label X label used_size_bytes capacity_size_bytes =
     bind_result
       (if used_size_bytes > 0
        then py_truediv (real_of_int used_size_bytes) (BYTES_TO_GIGABYTES X)
        else Inr 0)
       (\<lambda>used_gigabytes.
     bind_result
       (if used_size_bytes > 0 \<and> capacity_size_bytes > 0
        then bind_result
               (py_truediv (real_of_int used_size_bytes) (real_of_int capacity_size_bytes))
               (\<lambda>q. Inr (q * 100))
        else Inr 0)
       (\<lambda>used_percent. Inr (UsedText used_gigabytes used_percent)))"

definition set_percent_slider :: "modules \<Rightarrow> QSlider \<Rightarrow> real \<Rightarrow> error + QSlider" where
  "set_percent_slider X slider p =
     (let old_min = 0;
          old_max = 100;
          new_min = real_of_int (minimum slider);
          new_max = real_of_int (maximum slider)
      in bind_result (remap X old_min old_max new_min new_max p)
           (\<lambda>slider_value. Inr (slider\<lparr>position := py_int slider_value\<rparr>)))"

definition set_value_double_spin_box :: "QDoubleSpinBox \<Rightarrow> real \<Rightarrow> QDoubleSpinBox" where
  "set_value_double_spin_box doubleSpinBox v = real_of_int (py_int v)"

text \<open>The three widgets of one capacity row are updated together.\<close>

definition set_capacity_widgets ::
    "modules \<Rightarrow> QLabel \<times> QSlider \<times> QDoubleSpinBox \<Rightarrow> int \<Rightarrow> real
      \<Rightarrow> error + QLabel \<times> QSlider \<times> QDoubleSpinBox" where
  "set_capacity_widgets X widgets capacity_bytes capacity_percent =
     (case widgets of (label, slider, double_spin_box) \<Rightarrow>
        bind_result (set_capacity_size_label X label capacity_bytes) (\<lambda>label.
        bind_result (set_percent_slider X slider capacity_percent) (\<lambda>slider.
        Inr (label, slider, set_value_double_spin_box double_spin_box capacity_percent))))"

subsection \<open>The layout\<close>

record ImageCachePrefsLayout =
  updateEvery_spinBox :: int
  imageCacheSceneSettings_groupBox :: bool
  gpuCacheDefaultCapacity_doubleSpinBox :: QDoubleSpinBox
  cpuCacheDefaultCapacity_doubleSpinBox :: QDoubleSpinBox
  gpuCacheSceneCapacity_doubleSpinBox :: QDoubleSpinBox
  cpuCacheSceneCapacity_doubleSpinBox :: QDoubleSpinBox
  gpuCacheDefaultCapacity_horizontalSlider :: QSlider
  cpuCacheDefaultCapacity_horizontalSlider :: QSlider
  gpuCacheSceneCapacity_horizontalSlider :: QSlider
  cpuCacheSceneCapacity_horizontalSlider :: QSlider
  gpuCacheDefaultCapacityValue_label :: QLabel
  cpuCacheDefaultCapacityValue_label :: QLabel
  gpuCacheSceneCapacityValue_label :: QLabel
  cpuCacheSceneCapacityValue_label :: QLabel
  gpuMemoryTotalValue_label :: QLabel
  cpuMemoryTotalValue_label :: QLabel
  gpuMemoryUsedValue_label :: QLabel
  cpuMemoryUsedValue_label :: QLabel
  gpuCacheItemCountValue_label :: QLabel
  cpuCacheItemCountValue_label :: QLabel
  gpuCacheGroupCountValue_label :: QLabel
  cpuCacheGroupCountValue_label :: QLabel
  gpuCacheCapacityValue_label :: QLabel
  cpuCacheCapacityValue_label :: QLabel
  gpuCacheUsedValue_label :: QLabel
  cpuCacheUsedValue_label :: QLabel

text \<open>\<^verbatim>\<open>_get_capacity_bytes\<close>; the two spin boxes are read with \<^verbatim>\<open>.value()\<close>.\<close>

definition get_capacity_bytes ::
    "bool \<Rightarrow> QDoubleSpinBox \<Rightarrow> QDoubleSpinBox \<Rightarrow> int \<Rightarrow> int" where
  "get_capacity_bytes scene_override default_spin_box scene_spin_box memory_total =
     (let p = default_spin_box;
          p = (if scene_override then scene_spin_box else p);
          ratio = p / 100
      in py_int (ratio * real_of_int memory_total))"



definition update_resource_values ::
    "modules \<Rightarrow> ImageCachePrefsLayout \<Rightarrow> world \<Rightarrow> error + ImageCachePrefsLayout" where
  "update_resource_values X self w =
     (let gpu_cache_item_count = int (get_gpu_cache_item_count (lib w));
          cpu_cache_item_count = int (get_cpu_cache_item_count (lib w));
          gpu_cache_group_count = int (get_gpu_cache_group_count (lib w));
          cpu_cache_group_count = int (get_cpu_cache_group_count (lib w));
          gpu_cache_used = int (get_gpu_cache_used_bytes (lib w));
          cpu_cache_used = int (get_cpu_cache_used_bytes (lib w));
          gpu_cache_capacity = int (get_gpu_cache_capacity_bytes (lib w));
          cpu_cache_capacity = int (get_cpu_cache_capacity_bytes (lib w));
          gpu_memory_total = int (get_gpu_memory_total_bytes (lib w));
          cpu_memory_total = int (get_cpu_memory_total_bytes (lib w));
          gpu_memory_used = int (get_gpu_memory_used_bytes (lib w));
          cpu_memory_used = int (get_cpu_memory_used_bytes (lib w))
      in
      bind_result (set_memory_total_label X (gpuMemoryTotalValue_label self) gpu_memory_total)
        (\<lambda>l1.
      bind_result (set_memory_total_label X (cpuMemoryTotalValue_label self) cpu_memory_total)
        (\<lambda>l2.
      bind_result
        (set_memory_used_label X (gpuMemoryUsedValue_label self) gpu_memory_used gpu_memory_total)
        (\<lambda>l3.
      bind_result
        (set_memory_used_label X (cpuMemoryUsedValue_label self) cpu_memory_used cpu_memory_total)
        (\<lambda>l4.
      let l5 = set_count_label (gpuCacheItemCountValue_label self) gpu_cache_item_count;
          l6 = set_count_label (cpuCacheItemCountValue_label self) cpu_cache_item_count;
          l7 = set_count_label (gpuCacheGroupCountValue_label self) gpu_cache_group_count;
          l8 = set_count_label (cpuCacheGroupCountValue_label self) cpu_cache_group_count
      in
      bind_result
        (set_capacity_size_label X (gpuCacheCapacityValue_label self) gpu_cache_capacity)
        (\<lambda>l9.
      bind_result
        (set_capacity_size_label X (cpuCacheCapacityValue_label self) cpu_cache_capacity)
        (\<lambda>l10.
      bind_result
        (set_used_size_label X (cpuCacheUsedValue_label self) cpu_cache_used cpu_cache_capacity)
        (\<lambda>l11.
      bind_result
        (set_used_size_label X (gpuCacheUsedValue_label self) gpu_cache_used gpu_cache_capacity)
        (\<lambda>l12.
      Inr (self\<lparr>gpuMemoryTotalValue_label := l1,
                cpuMemoryTotalValue_label := l2,
                gpuMemoryUsedValue_label := l3,
                cpuMemoryUsedValue_label := l4,
                gpuCacheItemCountValue_label := l5,
                cpuCacheItemCountValue_label := l6,
                gpuCacheGroupCountValue_label := l7,
                cpuCacheGroupCountValue_label := l8,
                gpuCacheCapacityValue_label := l9,
                cpuCacheCapacityValue_label := l10,
                cpuCacheUsedValue_label := l11,
                gpuCacheUsedValue_label := l12\<rparr>))))))))))"

text \<open>
  \<^verbatim>\<open>reset_options\<close>: the scene's percents are read only when the override flag
  \<^verbatim>\<open>is True\<close>; otherwise the scene row shows the default capacities.
\<close>

definition reset_options ::
    "modules \<Rightarrow> ImageCachePrefsLayout \<Rightarrow> world \<Rightarrow> error + ImageCachePrefsLayout" where
  "reset_options X self w =
     bind_result (update_resource_values X self w) (\<lambda>self.
     let config = get_config w in
     bind_result (get_update_every_n_seconds X config None) (\<lambda>update_seconds.
     let self = self\<lparr>updateEvery_spinBox := update_seconds\<rparr> in
     bind_result (get_gpu_cache_capacity_percent_default X config None w)
       (\<lambda>default_gpu_capacity.
     bind_result (get_cpu_cache_capacity_percent_default X config None w)
       (\<lambda>default_cpu_capacity.
     bind_result (get_cache_scene_override X w) (\<lambda>scene_override.
     bind_result
       (if is_True scene_override
        then bind_result (get_gpu_cache_capacity_percent_scene X None w) (\<lambda>g.
             bind_result (get_cpu_cache_capacity_percent_scene X None w) (\<lambda>c. Inr (g, c)))
        else Inr (default_gpu_capacity, default_cpu_capacity))
       (\<lambda>(scene_gpu_capacity, scene_cpu_capacity).
     bind_result
       (set_capacity_widgets X
          (gpuCacheDefaultCapacityValue_label self,
           gpuCacheDefaultCapacity_horizontalSlider self,
           gpuCacheDefaultCapacity_doubleSpinBox self)
          (size_bytes default_gpu_capacity) (percent default_gpu_capacity))
       (\<lambda>(l, s, b).
     let self = self\<lparr>gpuCacheDefaultCapacityValue_label := l,
                      gpuCacheDefaultCapacity_horizontalSlider := s,
                      gpuCacheDefaultCapacity_doubleSpinBox := b\<rparr> in
     bind_result
       (set_capacity_widgets X
          (cpuCacheDefaultCapacityValue_label self,
           cpuCacheDefaultCapacity_horizontalSlider self,
           cpuCacheDefaultCapacity_doubleSpinBox self)
          (size_bytes default_cpu_capacity) (percent default_cpu_capacity))
       (\<lambda>(l, s, b).
     let self = self\<lparr>cpuCacheDefaultCapacityValue_label := l,
                      cpuCacheDefaultCapacity_horizontalSlider := s,
                      cpuCacheDefaultCapacity_doubleSpinBox := b\<rparr>;
         self = self\<lparr>imageCacheSceneSettings_groupBox := is_True scene_override\<rparr> in
     bind_result
       (set_capacity_widgets X
          (gpuCacheSceneCapacityValue_label self,
           gpuCacheSceneCapacity_horizontalSlider self,
           gpuCacheSceneCapacity_doubleSpinBox self)
          (size_bytes scene_gpu_capacity) (percent scene_gpu_capacity))
       (\<lambda>(l, s, b).
     let self = self\<lparr>gpuCacheSceneCapacityValue_label := l,
                      gpuCacheSceneCapacity_horizontalSlider := s,
                      gpuCacheSceneCapacity_doubleSpinBox := b\<rparr> in
     bind_result
       (set_capacity_widgets X
          (cpuCacheSceneCapacityValue_label self,
           cpuCacheSceneCapacity_horizontalSlider self,
           cpuCacheSceneCapacity_doubleSpinBox self)
          (size_bytes scene_cpu_capacity) (percent scene_cpu_capacity))
       (\<lambda>(l, s, b).
     Inr (self\<lparr>cpuCacheSceneCapacityValue_label := l,
               cpuCacheSceneCapacity_horizontalSlider := s,
               cpuCacheSceneCapacity_doubleSpinBox := b\<rparr>)))))))))))"

text \<open>
  \<^verbatim>\<open>save_options\<close>: the three entries of the configuration file are written from the
  widgets, then the scene's flag, and the scene's percents only when the group box is
  checked.
\<close>

definition save_options ::
    "modules \<Rightarrow> ImageCachePrefsLayout \<Rightarrow> world \<Rightarrow> error + world" where
  "save_options X self w =
     (let update_seconds = updateEvery_spinBox self;
          gpu_percent_default = gpuCacheDefaultCapacity_doubleSpinBox self;
          cpu_percent_default = cpuCacheDefaultCapacity_doubleSpinBox self;
          w = (case get_config w of
                 None \<Rightarrow> w
               | Some config \<Rightarrow>
                   (let config = config_set_value config
                          (CONFIG_UPDATE_EVERY_N_SECONDS_KEY X) (PyInt update_seconds);
                        config = config_set_value config
                          (CONFIG_GPU_CAPACITY_PERCENT_KEY X) (PyFloat gpu_percent_default);
                        config = config_set_value config
                          (CONFIG_CPU_CAPACITY_PERCENT_KEY X) (PyFloat cpu_percent_default)
                    in config_write config w));
          scene_override = imageCacheSceneSettings_groupBox self;
          gpu_percent_scene = gpuCacheSceneCapacity_doubleSpinBox self;
          cpu_percent_scene = cpuCacheSceneCapacity_doubleSpinBox self
      in bind_result (set_cache_scene_override X (PyBool scene_override) w) (\<lambda>w.
           if scene_override
           then Inr (set_cpu_cache_capacity_percent_scene X cpu_percent_scene
                      (set_gpu_cache_capacity_percent_scene X gpu_percent_scene w))
           else Inr w))"

subsection \<open>Concrete instances\<close>

text \<open>
  An instance of the parameters and of the world, for evaluating the functions at
  concrete inputs: keys that differ from one another, the number of bytes in a gibibyte,
  a linear \<^verbatim>\<open>remap\<close>, a cache that holds nothing, and a layout as it is before
  \<^verbatim>\<open>reset_options\<close> first fills it (sliders from 0 to 100).
\<close>

definition linear_remap :: "real \<Rightarrow> real \<Rightarrow> real \<Rightarrow> real \<Rightarrow> real \<Rightarrow> error + real" where
  "linear_remap old_min old_max new_min new_max v =
     bind_result (py_truediv (v - old_min) (old_max - old_min))
       (\<lambda>q. Inr (new_min + q * (new_max - new_min)))"

definition example_modules :: modules where
  "example_modules =
     \<lparr>CONFIG_UPDATE_EVERY_N_SECONDS_KEY = ''update_every_n_seconds'',
      CONFIG_UPDATE_EVERY_N_SECONDS_DEFAULT_VALUE = 2,
      CONFIG_GPU_CAPACITY_PERCENT_KEY = ''gpu_capacity_percent'',
      CONFIG_CPU_CAPACITY_PERCENT_KEY = ''cpu_capacity_percent'',
      CONFIG_SCENE_CAPACITY_OVERRIDE_KEY = ''scene_capacity_override'',
      CONFIG_SCENE_GPU_CAPACITY_PERCENT_KEY = ''scene_gpu_capacity_percent'',
      CONFIG_SCENE_CPU_CAPACITY_PERCENT_KEY = ''scene_cpu_capacity_percent'',
      BYTES_TO_GIGABYTES = 1073741824,
      remap = linear_remap\<rparr>"

definition example_lib :: "nat \<Rightarrow> nat \<Rightarrow> cache_lib" where
  "example_lib gpu_total cpu_total =
     \<lparr>get_gpu_cache_item_count = 0, get_cpu_cache_item_count = 0,
      get_gpu_cache_group_count = 0, get_cpu_cache_group_count = 0,
      get_gpu_cache_used_bytes = 0, get_cpu_cache_used_bytes = 0,
      get_gpu_cache_capacity_bytes = 0, get_cpu_cache_capacity_bytes = 0,
      get_gpu_memory_total_bytes = gpu_total, get_cpu_memory_total_bytes = cpu_total,
      get_gpu_memory_used_bytes = 0, get_cpu_memory_used_bytes = 0\<rparr>"

definition example_world ::
    "config option \<Rightarrow> (string \<rightharpoonup> pyval) \<Rightarrow> nat \<Rightarrow> nat \<Rightarrow> world" where
  "example_world file options gpu_total cpu_total =
     \<lparr>config_file = file, scene = options, lib = example_lib gpu_total cpu_total\<rparr>"

definition example_slider :: QSlider where
  "example_slider = \<lparr>minimum = 0, maximum = 100, position = 0\<rparr>"

definition example_layout :: ImageCachePrefsLayout where
  "example_layout =
     (\<lparr>updateEvery_spinBox = 0,
       imageCacheSceneSettings_groupBox = False,
       gpuCacheDefaultCapacity_doubleSpinBox = 0,
       cpuCacheDefaultCapacity_doubleSpinBox = 0,
       gpuCacheSceneCapacity_doubleSpinBox = 0,
       cpuCacheSceneCapacity_doubleSpinBox = 0,
       gpuCacheDefaultCapacity_horizontalSlider = example_slider,
       cpuCacheDefaultCapacity_horizontalSlider = example_slider,
       gpuCacheSceneCapacity_horizontalSlider = example_slider,
       cpuCacheSceneCapacity_horizontalSlider = example_slider,
       gpuCacheDefaultCapacityValue_label = NoText,
       cpuCacheDefaultCapacityValue_label = NoText,
       gpuCacheSceneCapacityValue_label = NoText,
       cpuCacheSceneCapacityValue_label = NoText,
       gpuMemoryTotalValue_label = NoText,
       cpuMemoryTotalValue_label = NoText,
       gpuMemoryUsedValue_label = NoText,
       cpuMemoryUsedValue_label = NoText,
       gpuCacheItemCountValue_label = NoText,
       cpuCacheItemCountValue_label = NoText,
       gpuCacheGroupCountValue_label = NoText,
       cpuCacheGroupCountValue_label = NoText,
       gpuCacheCapacityValue_label = NoText,
       cpuCacheCapacityValue_label = NoText,
       gpuCacheUsedValue_label = NoText,
       cpuCacheUsedValue_label = NoText\<rparr>)"

section \<open>Properties\<close>

subsection \<open>Truncation and lookups\<close>


lemma py_int_zero: "py_int 0 = 0"
  by (simp add: py_int_def)


lemma get_config_value_unset:
  "config = None \<or> (\<exists>c. config = Some c \<and> c key = None) \<Longrightarrow>
     get_config_value config key fallback = fallback"
  by (auto simp: get_config_value_def config_get_value_def)

lemma gpu_default_of_float:
  assumes "get_config_value config (CONFIG_GPU_CAPACITY_PERCENT_KEY X) (PyFloat 0) = PyFloat p"
  shows "get_gpu_cache_capacity_percent_default X config None w =
           Inr \<lparr>size_bytes = py_int (real (get_gpu_memory_total_bytes (lib w)) * (p / 100)),
                percent = p\<rparr>"
  using assms by (simp add: get_gpu_cache_capacity_percent_default_def)

lemma cpu_default_of_float:
  assumes "get_config_value config (CONFIG_CPU_CAPACITY_PERCENT_KEY X) (PyFloat 0) = PyFloat p"
  shows "get_cpu_cache_capacity_percent_default X config None w =
           Inr \<lparr>size_bytes = py_int (real (get_cpu_memory_total_bytes (lib w)) * (p / 100)),
                percent = p\<rparr>"
  using assms by (simp add: get_cpu_cache_capacity_percent_default_def)

subsection \<open>Capacity resolution\<close>









text \<open>
  Claim C7. A default percent that was never stored is filled in when it is read: with
  no \<^verbatim>\<open>Config\<close> object, with an object that has no entry under the pool's key, or
  with no configuration file at all, \<^verbatim>\<open>get_gpu_cache_capacity_percent_default\<close> and
  \<^verbatim>\<open>get_cpu_cache_capacity_percent_default\<close> answer the percent 0.0 and 0 bytes,
  whatever the pool's memory total is.
\<close>

theorem default_percent_lazily_defaulted:
  "(config = None \<or> (\<exists>c. config = Some c \<and> c (CONFIG_GPU_CAPACITY_PERCENT_KEY X) = None)
      \<longrightarrow> get_gpu_cache_capacity_percent_default X config None w
            = Inr \<lparr>size_bytes = 0, percent = 0\<rparr>)
   \<and> (config = None \<or> (\<exists>c. config = Some c \<and> c (CONFIG_CPU_CAPACITY_PERCENT_KEY X) = None)
      \<longrightarrow> get_cpu_cache_capacity_percent_default X config None w
            = Inr \<lparr>size_bytes = 0, percent = 0\<rparr>)
   \<and> (config_file w = None
      \<longrightarrow> get_gpu_cache_capacity_percent_default X (get_config w) None w
            = Inr \<lparr>size_bytes = 0, percent = 0\<rparr>
        \<and> get_cpu_cache_capacity_percent_default X (get_config w) None w
            = Inr \<lparr>size_bytes = 0, percent = 0\<rparr>)"
proof -
  have g: "get_gpu_cache_capacity_percent_default X cfg None w
             = Inr \<lparr>size_bytes = 0, percent = 0\<rparr>"
    if "cfg = None \<or> (\<exists>c. cfg = Some c \<and> c (CONFIG_GPU_CAPACITY_PERCENT_KEY X) = None)"
    for cfg
  proof -
    have "get_config_value cfg (CONFIG_GPU_CAPACITY_PERCENT_KEY X) (PyFloat 0) = PyFloat 0"
      using that by (rule get_config_value_unset)
    then show ?thesis
      using gpu_default_of_float [of cfg X 0 w] by (simp add: py_int_zero)
  qed
  have c: "get_cpu_cache_capacity_percent_default X cfg None w
             = Inr \<lparr>size_bytes = 0, percent = 0\<rparr>"
    if "cfg = None \<or> (\<exists>c. cfg = Some c \<and> c (CONFIG_CPU_CAPACITY_PERCENT_KEY X) = None)"
    for cfg
  proof -
    have "get_config_value cfg (CONFIG_CPU_CAPACITY_PERCENT_KEY X) (PyFloat 0) = PyFloat 0"
      using that by (rule get_config_value_unset)
    then show ?thesis
      using cpu_default_of_float [of cfg X 0 w] by (simp add: py_int_zero)
  qed
  have f: "get_config w = Some Map.empty" if "config_file w = None"
    using that by (simp add: get_config_def)
  show ?thesis
    using g [of config] c [of config] g [of "get_config w"] c [of "get_config w"] f
    by auto
qed

theorem default_percent_lazily_defaulted_witness:
  "get_gpu_cache_capacity_percent_default example_modules
       (Some [''cpu_capacity_percent'' \<mapsto> PyFloat 25]) None
       (example_world None Map.empty 8000 16000)
     = Inr \<lparr>size_bytes = 0, percent = 0\<rparr>
   \<and> get_cpu_cache_capacity_percent_default example_modules
       (Some [''gpu_capacity_percent'' \<mapsto> PyFloat 25]) None
       (example_world None Map.empty 8000 16000)
     = Inr \<lparr>size_bytes = 0, percent = 0\<rparr>
   \<and> get_gpu_cache_capacity_percent_default example_modules
       (get_config (example_world None Map.empty 8000 16000)) None
       (example_world None Map.empty 8000 16000)
     = Inr \<lparr>size_bytes = 0, percent = 0\<rparr>
   \<and> get_cpu_cache_capacity_percent_default example_modules
       (get_config (example_world None Map.empty 8000 16000)) None
       (example_world None Map.empty 8000 16000)
     = Inr \<lparr>size_bytes = 0, percent = 0\<rparr>"
proof -
  have k: "[''cpu_capacity_percent'' \<mapsto> PyFloat 25]
             (CONFIG_GPU_CAPACITY_PERCENT_KEY example_modules) = None"
    "[''gpu_capacity_percent'' \<mapsto> PyFloat 25]
             (CONFIG_CPU_CAPACITY_PERCENT_KEY example_modules) = None"
    by (simp_all add: example_modules_def)
  have h: "config_file (example_world None Map.empty 8000 16000) = None"
    by (simp add: example_world_def)
  show ?thesis
    using default_percent_lazily_defaulted
            [of "Some [''cpu_capacity_percent'' \<mapsto> PyFloat 25]" example_modules
                "example_world None Map.empty 8000 16000"]
          default_percent_lazily_defaulted
            [of "Some [''gpu_capacity_percent'' \<mapsto> PyFloat 25]" example_modules
                "example_world None Map.empty 8000 16000"]
          k h
    by simp
qed

subsection \<open>Widgets\<close>


lemma bind_result_Inl: "bind_result (Inl e) f = Inl e"
  by (simp add: bind_result_def)

lemma bind_result_eq_Inr:
  "bind_result r f = Inr b \<longleftrightarrow> (\<exists>a. r = Inr a \<and> f a = Inr b)"
  by (cases r) (simp_all add: bind_result_def)

lemma set_capacity_widgets_spin_box:
  assumes "set_capacity_widgets X (label, slider, box) n p = Inr (label', slider', box')"
  shows "box' = real_of_int (py_int p)"
  using assms
  by (auto simp: set_capacity_widgets_def bind_result_eq_Inr set_value_double_spin_box_def)

text \<open>
  Claim C10. \<^verbatim>\<open>set_value_double_spin_box\<close> puts \<^verbatim>\<open>int(p)\<close> into the spin box: the
  percent truncated toward zero, which is its floor when \<open>p\<close> is not negative; 12.7
  becomes 12. The spin box of a capacity row that \<^verbatim>\<open>set_capacity_widgets\<close> has filled
  holds that whole number.
\<close>

theorem spin_box_truncates_percent:
  "set_value_double_spin_box box p = real_of_int (py_int p)
   \<and> (0 \<le> p \<longrightarrow> set_value_double_spin_box box p = real_of_int \<lfloor>p\<rfloor>)
   \<and> (p < 0 \<longrightarrow> set_value_double_spin_box box p = real_of_int \<lceil>p\<rceil>)
   \<and> set_value_double_spin_box box (127 / 10) = 12
   \<and> (\<forall>label' slider' box'.
         set_capacity_widgets X (label, slider, box) n p = Inr (label', slider', box') \<and> 0 \<le> p
         \<longrightarrow> box' = real_of_int \<lfloor>p\<rfloor>)"
proof -
  have a: "set_value_double_spin_box box p = real_of_int (py_int p)"
    by (simp add: set_value_double_spin_box_def)
  have b: "0 \<le> p \<longrightarrow> set_value_double_spin_box box p = real_of_int \<lfloor>p\<rfloor>"
    by (simp add: set_value_double_spin_box_def py_int_def)
  have c: "p < 0 \<longrightarrow> set_value_double_spin_box box p = real_of_int \<lceil>p\<rceil>"
    by (simp add: set_value_double_spin_box_def py_int_def)
  have d: "set_value_double_spin_box box (127 / 10) = 12"
    by (simp add: set_value_double_spin_box_def py_int_def)
  have e: "\<forall>label' slider' box'.
         set_capacity_widgets X (label, slider, box) n p = Inr (label', slider', box') \<and> 0 \<le> p
         \<longrightarrow> box' = real_of_int \<lfloor>p\<rfloor>"
    by (auto dest!: set_capacity_widgets_spin_box simp: py_int_def)
  from a b c d e show ?thesis by blast
qed

theorem spin_box_truncates_percent_witness:
  "set_value_double_spin_box 0 (127 / 10) = 12
   \<and> set_capacity_widgets example_modules (NoText, example_slider, 0) 0 (127 / 10)
       = Inr (GigabytesText 0, \<lparr>minimum = 0, maximum = 100, position = 12\<rparr>, 12)"
proof -
  have s: "set_capacity_widgets example_modules (NoText, example_slider, 0) 0 (127 / 10)
       = Inr (GigabytesText 0, \<lparr>minimum = 0, maximum = 100, position = 12\<rparr>, 12)"
    by (simp add: set_capacity_widgets_def set_capacity_size_label_def set_percent_slider_def
        set_value_double_spin_box_def bind_result_def example_modules_def example_slider_def
        linear_remap_def py_truediv_def py_int_def)
  show ?thesis
    using spin_box_truncates_percent
            [of 0 "127 / 10" example_modules NoText example_slider 0] s
    by simp
qed

text \<open>
  Claim C8. The two labels that show a usage never divide by zero, whatever the two byte
  counts are: the percentage is \<open>used / total * 100\<close> only when both counts are
  positive and 0.0 otherwise, so a pool of capacity zero shows 0.0 percent and raises
  nothing. (The number of bytes in a gigabyte, a constant the labels divide by, is taken
  not to be zero.)
\<close>

theorem usage_percent_never_divides_by_zero:
  assumes "BYTES_TO_GIGABYTES X \<noteq> 0"
  shows "set_memory_used_label X label used tot =
           Inr (UsedText (if used > 0 then real_of_int used / BYTES_TO_GIGABYTES X else 0)
                         (if used > 0 \<and> tot > 0
                          then real_of_int used / real_of_int tot * 100 else 0))
       \<and> set_used_size_label X label used tot =
           Inr (UsedText (if used > 0 then real_of_int used / BYTES_TO_GIGABYTES X else 0)
                         (if used > 0 \<and> tot > 0
                          then real_of_int used / real_of_int tot * 100 else 0))
       \<and> (tot = 0 \<or> used \<le> 0 \<longrightarrow>
            set_memory_used_label X label used tot =
              Inr (UsedText (if used > 0 then real_of_int used / BYTES_TO_GIGABYTES X else 0) 0)
          \<and> set_used_size_label X label used tot =
              Inr (UsedText (if used > 0 then real_of_int used / BYTES_TO_GIGABYTES X else 0) 0))"
  using assms
  by (simp add: set_memory_used_label_def set_used_size_label_def bind_result_def
      py_truediv_def)

theorem usage_percent_never_divides_by_zero_witness:
  "set_memory_used_label example_modules NoText 1073741824 0 = Inr (UsedText 1 0)
   \<and> set_used_size_label example_modules NoText 1073741824 0 = Inr (UsedText 1 0)
   \<and> set_used_size_label example_modules NoText 1073741824 2147483648 = Inr (UsedText 1 50)"
proof -
  have b: "BYTES_TO_GIGABYTES example_modules \<noteq> 0" "BYTES_TO_GIGABYTES example_modules = 1073741824"
    by (simp_all add: example_modules_def)
  show ?thesis
    using usage_percent_never_divides_by_zero [OF b(1), of NoText 1073741824 0]
          usage_percent_never_divides_by_zero [OF b(1), of NoText 1073741824 2147483648]
    by (simp add: b(2))
qed

subsection \<open>The scene's options\<close>

text \<open>
  Claim C3, as stated, fails: in a scene where the override option was never set,
  \<^verbatim>\<open>get_cache_scene_override\<close> answers \<^verbatim>\<open>None\<close>, which is not a bool.
\<close>

theorem scene_override_unset_counterexample:
  "get_cache_scene_override example_modules (example_world None Map.empty 1000 1000) = Inr PyNone
   \<and> \<not> isinstance_bool PyNone"
  by (simp add: get_cache_scene_override_def get_scene_option_def example_world_def
      isinstance_bool_def)

text \<open>
  Claim C3, amended. \<^verbatim>\<open>get_cache_scene_override\<close> answers \<^verbatim>\<open>None\<close> when the
  option has never been set and the stored bool when one is stored; whatever the scene
  holds, a value it answers is \<^verbatim>\<open>None\<close> or a bool (its assertion lets nothing else
  through). After \<^verbatim>\<open>set_cache_scene_override\<close> has written a bool, that bool is the
  answer.
\<close>

theorem scene_override_bool_or_None:
  "(scene w (CONFIG_SCENE_CAPACITY_OVERRIDE_KEY X) = None
      \<longrightarrow> get_cache_scene_override X w = Inr PyNone)
   \<and> (scene w (CONFIG_SCENE_CAPACITY_OVERRIDE_KEY X) = Some (PyBool b)
      \<longrightarrow> get_cache_scene_override X w = Inr (PyBool b))
   \<and> (\<forall>v. get_cache_scene_override X w = Inr v \<longrightarrow> v = PyNone \<or> isinstance_bool v)
   \<and> (\<forall>w'. set_cache_scene_override X (PyBool b) w = Inr w'
      \<longrightarrow> get_cache_scene_override X w' = Inr (PyBool b))"
  by (auto simp: get_cache_scene_override_def get_scene_option_def isinstance_bool_def
      set_cache_scene_override_def set_scene_option_def Let_def split: if_splits)

theorem scene_override_bool_or_None_witness:
  "get_cache_scene_override example_modules (example_world None Map.empty 1000 1000) = Inr PyNone
   \<and> get_cache_scene_override example_modules
        (example_world None [''scene_capacity_override'' \<mapsto> PyBool True] 1000 1000)
       = Inr (PyBool True)
   \<and> get_cache_scene_override example_modules
        (set_scene_option ''scene_capacity_override'' (PyBool False)
           (example_world None Map.empty 1000 1000))
       = Inr (PyBool False)"
proof -
  have a: "scene (example_world None Map.empty 1000 1000)
             (CONFIG_SCENE_CAPACITY_OVERRIDE_KEY example_modules) = None"
    by (simp add: example_world_def)
  have b: "scene (example_world None [''scene_capacity_override'' \<mapsto> PyBool True] 1000 1000)
             (CONFIG_SCENE_CAPACITY_OVERRIDE_KEY example_modules) = Some (PyBool True)"
    by (simp add: example_world_def example_modules_def)
  have c: "set_cache_scene_override example_modules (PyBool False)
             (example_world None Map.empty 1000 1000)
           = Inr (set_scene_option ''scene_capacity_override'' (PyBool False)
                    (example_world None Map.empty 1000 1000))"
    by (simp add: set_cache_scene_override_def isinstance_bool_def example_modules_def)
  show ?thesis
    using scene_override_bool_or_None
            [of "example_world None Map.empty 1000 1000" example_modules False]
          scene_override_bool_or_None
            [of "example_world None [''scene_capacity_override'' \<mapsto> PyBool True] 1000 1000"
                example_modules True]
          a b c
    by simp
qed

text \<open>The world after \<^verbatim>\<open>save_options\<close>, which never raises.\<close>

lemma save_options_result:
  "save_options X self w =
     Inr (let w1 = w\<lparr>config_file := Some
                 ((case config_file w of None \<Rightarrow> Map.empty | Some c \<Rightarrow> c)
                    (CONFIG_UPDATE_EVERY_N_SECONDS_KEY X \<mapsto> PyInt (updateEvery_spinBox self),
                     CONFIG_GPU_CAPACITY_PERCENT_KEY X \<mapsto>
                       PyFloat (gpuCacheDefaultCapacity_doubleSpinBox self),
                     CONFIG_CPU_CAPACITY_PERCENT_KEY X \<mapsto>
                       PyFloat (cpuCacheDefaultCapacity_doubleSpinBox self)))\<rparr>;
              w2 = w1\<lparr>scene := (scene w1)(CONFIG_SCENE_CAPACITY_OVERRIDE_KEY X \<mapsto>
                       PyBool (imageCacheSceneSettings_groupBox self))\<rparr>
          in if imageCacheSceneSettings_groupBox self
             then w2\<lparr>scene := (scene w2)
                    (CONFIG_SCENE_GPU_CAPACITY_PERCENT_KEY X \<mapsto>
                       PyFloat (gpuCacheSceneCapacity_doubleSpinBox self),
                     CONFIG_SCENE_CPU_CAPACITY_PERCENT_KEY X \<mapsto>
                       PyFloat (cpuCacheSceneCapacity_doubleSpinBox self))\<rparr>
             else w2)"
  by (simp add: save_options_def get_config_def config_set_value_def config_write_def
      set_cache_scene_override_def isinstance_bool_def set_scene_option_def bind_result_def
      set_gpu_cache_capacity_percent_scene_def set_cpu_cache_capacity_percent_scene_def Let_def)

text \<open>
  Claim C5. Writing a capacity percent is an update of the stored configuration and of
  nothing else: \<^verbatim>\<open>set_gpu_cache_capacity_percent_scene\<close> and
  \<^verbatim>\<open>set_cpu_cache_capacity_percent_scene\<close> store the percent under their key of the
  scene's options and leave the configuration file and the cache as they were, and
  \<^verbatim>\<open>save_options\<close> ends with the cache as it was: no eviction, no resize, no other
  change of a pool.
\<close>

theorem percent_write_is_state_update:
  "lib (set_gpu_cache_capacity_percent_scene X p w) = lib w
   \<and> config_file (set_gpu_cache_capacity_percent_scene X p w) = config_file w
   \<and> scene (set_gpu_cache_capacity_percent_scene X p w)
       = (scene w)(CONFIG_SCENE_GPU_CAPACITY_PERCENT_KEY X \<mapsto> PyFloat p)
   \<and> lib (set_cpu_cache_capacity_percent_scene X p w) = lib w
   \<and> config_file (set_cpu_cache_capacity_percent_scene X p w) = config_file w
   \<and> scene (set_cpu_cache_capacity_percent_scene X p w)
       = (scene w)(CONFIG_SCENE_CPU_CAPACITY_PERCENT_KEY X \<mapsto> PyFloat p)
   \<and> (\<exists>w'. save_options X self w = Inr w' \<and> lib w' = lib w)"
  by (simp add: set_gpu_cache_capacity_percent_scene_def
      set_cpu_cache_capacity_percent_scene_def set_scene_option_def save_options_result Let_def)

theorem percent_write_is_state_update_witness:
  "lib (set_gpu_cache_capacity_percent_scene example_modules 75
          (example_world None Map.empty 1000 2000)) = example_lib 1000 2000
   \<and> scene (set_gpu_cache_capacity_percent_scene example_modules 75
          (example_world None Map.empty 1000 2000))
       = [''scene_gpu_capacity_percent'' \<mapsto> PyFloat 75]
   \<and> (\<exists>w'. save_options example_modules
                (example_layout\<lparr>imageCacheSceneSettings_groupBox := True,
                                 gpuCacheSceneCapacity_doubleSpinBox := 75\<rparr>)
                (example_world None Map.empty 1000 2000) = Inr w'
            \<and> lib w' = example_lib 1000 2000)"
proof -
  have l: "lib (example_world None Map.empty 1000 2000) = example_lib 1000 2000"
    "scene (example_world None Map.empty 1000 2000) = Map.empty"
    by (simp_all add: example_world_def)
  have k: "CONFIG_SCENE_GPU_CAPACITY_PERCENT_KEY example_modules = ''scene_gpu_capacity_percent''"
    by (simp add: example_modules_def)
  show ?thesis
    using percent_write_is_state_update
            [of example_modules 75 "example_world None Map.empty 1000 2000"
                "example_layout\<lparr>imageCacheSceneSettings_groupBox := True,
                                gpuCacheSceneCapacity_doubleSpinBox := 75\<rparr>"]
    by (simp add: l k)
qed

lemmas reset_options_unfold =
  reset_options_def update_resource_values_def set_memory_total_label_def
  set_memory_used_label_def set_count_label_def set_capacity_size_label_def
  set_used_size_label_def set_percent_slider_def set_value_double_spin_box_def
  set_capacity_widgets_def get_config_def get_config_value_def config_get_value_def
  get_update_every_n_seconds_def get_gpu_cache_capacity_percent_default_def
  get_cpu_cache_capacity_percent_default_def get_cache_scene_override_def
  get_gpu_cache_capacity_percent_scene_def get_cpu_cache_capacity_percent_scene_def
  get_scene_option_def isinstance_bool_def is_True_def bind_result_def py_truediv_def
  py_int_def linear_remap_def example_modules_def example_world_def example_lib_def
  example_layout_def example_slider_def Let_def

text \<open>
  Claim C4, as stated, fails for \<^verbatim>\<open>save_options\<close>. The scene stores an override of
  90 percent for the GPU pool, the flag is off and the default is 50 percent.
  \<^verbatim>\<open>reset_options\<close> fills the scene row from the default; the group box is then
  checked and \<^verbatim>\<open>save_options\<close> is run: the stored override is now 50 percent.
\<close>

theorem override_toggle_counterexample:
  "(case reset_options example_modules example_layout
           (example_world (Some [''gpu_capacity_percent'' \<mapsto> PyFloat 50])
              [''scene_capacity_override'' \<mapsto> PyBool False,
               ''scene_gpu_capacity_percent'' \<mapsto> PyFloat 90] 1000 1000) of
      Inl e \<Rightarrow> False
    | Inr shown \<Rightarrow>
        (case save_options example_modules
                (shown\<lparr>imageCacheSceneSettings_groupBox := True\<rparr>)
                (example_world (Some [''gpu_capacity_percent'' \<mapsto> PyFloat 50])
                   [''scene_capacity_override'' \<mapsto> PyBool False,
                    ''scene_gpu_capacity_percent'' \<mapsto> PyFloat 90] 1000 1000) of
           Inl e \<Rightarrow> False
         | Inr saved \<Rightarrow>
             scene (example_world (Some [''gpu_capacity_percent'' \<mapsto> PyFloat 50])
                      [''scene_capacity_override'' \<mapsto> PyBool False,
                       ''scene_gpu_capacity_percent'' \<mapsto> PyFloat 90] 1000 1000)
                   ''scene_gpu_capacity_percent'' = Some (PyFloat 90)
             \<and> scene saved ''scene_gpu_capacity_percent'' = Some (PyFloat 50)))"
  by (simp add: reset_options_unfold save_options_result)

text \<open>
  Claim C4, amended. With keys that differ from one another:
  \<^verbatim>\<open>set_cache_scene_override\<close> changes neither the stored per-scene percents nor the
  configuration file. \<^verbatim>\<open>save_options\<close> leaves the stored per-scene percents as they
  were when the group box is not checked, and stores the scene spin boxes' numbers in
  their place when it is checked; in both cases the default percents it stores are the
  numbers of the default spin boxes. With the flag off, the override percent stays out of
  the resolution of the capacity.
\<close>

theorem override_flag_write_frame:
  assumes "CONFIG_SCENE_CAPACITY_OVERRIDE_KEY X \<noteq> CONFIG_SCENE_GPU_CAPACITY_PERCENT_KEY X"
    and "CONFIG_SCENE_CAPACITY_OVERRIDE_KEY X \<noteq> CONFIG_SCENE_CPU_CAPACITY_PERCENT_KEY X"
    and "CONFIG_SCENE_GPU_CAPACITY_PERCENT_KEY X \<noteq> CONFIG_SCENE_CPU_CAPACITY_PERCENT_KEY X"
    and "CONFIG_GPU_CAPACITY_PERCENT_KEY X \<noteq> CONFIG_CPU_CAPACITY_PERCENT_KEY X"
  shows "(\<exists>w'. set_cache_scene_override X (PyBool b) w = Inr w'
            \<and> scene w' (CONFIG_SCENE_GPU_CAPACITY_PERCENT_KEY X)
                = scene w (CONFIG_SCENE_GPU_CAPACITY_PERCENT_KEY X)
            \<and> scene w' (CONFIG_SCENE_CPU_CAPACITY_PERCENT_KEY X)
                = scene w (CONFIG_SCENE_CPU_CAPACITY_PERCENT_KEY X)
            \<and> config_file w' = config_file w)
       \<and> (\<exists>w' c'. save_options X self w = Inr w' \<and> config_file w' = Some c'
            \<and> c' (CONFIG_GPU_CAPACITY_PERCENT_KEY X)
                = Some (PyFloat (gpuCacheDefaultCapacity_doubleSpinBox self))
            \<and> c' (CONFIG_CPU_CAPACITY_PERCENT_KEY X)
                = Some (PyFloat (cpuCacheDefaultCapacity_doubleSpinBox self))
            \<and> scene w' (CONFIG_SCENE_GPU_CAPACITY_PERCENT_KEY X)
                = (if imageCacheSceneSettings_groupBox self
                   then Some (PyFloat (gpuCacheSceneCapacity_doubleSpinBox self))
                   else scene w (CONFIG_SCENE_GPU_CAPACITY_PERCENT_KEY X))
            \<and> scene w' (CONFIG_SCENE_CPU_CAPACITY_PERCENT_KEY X)
                = (if imageCacheSceneSettings_groupBox self
                   then Some (PyFloat (cpuCacheSceneCapacity_doubleSpinBox self))
                   else scene w (CONFIG_SCENE_CPU_CAPACITY_PERCENT_KEY X)))
       \<and> get_capacity_bytes False d ov t = get_capacity_bytes False d ov' t"
proof -
  have a: "\<exists>w'. set_cache_scene_override X (PyBool b) w = Inr w'
            \<and> scene w' (CONFIG_SCENE_GPU_CAPACITY_PERCENT_KEY X)
                = scene w (CONFIG_SCENE_GPU_CAPACITY_PERCENT_KEY X)
            \<and> scene w' (CONFIG_SCENE_CPU_CAPACITY_PERCENT_KEY X)
                = scene w (CONFIG_SCENE_CPU_CAPACITY_PERCENT_KEY X)
            \<and> config_file w' = config_file w"
    using assms(1,2)
    by (simp add: set_cache_scene_override_def isinstance_bool_def set_scene_option_def)
  have s: "\<exists>w' c'. save_options X self w = Inr w' \<and> config_file w' = Some c'
            \<and> c' (CONFIG_GPU_CAPACITY_PERCENT_KEY X)
                = Some (PyFloat (gpuCacheDefaultCapacity_doubleSpinBox self))
            \<and> c' (CONFIG_CPU_CAPACITY_PERCENT_KEY X)
                = Some (PyFloat (cpuCacheDefaultCapacity_doubleSpinBox self))
            \<and> scene w' (CONFIG_SCENE_GPU_CAPACITY_PERCENT_KEY X)
                = (if imageCacheSceneSettings_groupBox self
                   then Some (PyFloat (gpuCacheSceneCapacity_doubleSpinBox self))
                   else scene w (CONFIG_SCENE_GPU_CAPACITY_PERCENT_KEY X))
            \<and> scene w' (CONFIG_SCENE_CPU_CAPACITY_PERCENT_KEY X)
                = (if imageCacheSceneSettings_groupBox self
                   then Some (PyFloat (cpuCacheSceneCapacity_doubleSpinBox self))
                   else scene w (CONFIG_SCENE_CPU_CAPACITY_PERCENT_KEY X))"
    using assms by (simp add: save_options_result Let_def)
  have r: "get_capacity_bytes False d ov t = get_capacity_bytes False d ov' t"
    by (simp add: get_capacity_bytes_def)
  from a s r show ?thesis by blast
qed

theorem override_flag_write_frame_witness:
  "(\<exists>w'. set_cache_scene_override example_modules (PyBool True)
            (example_world None [''scene_gpu_capacity_percent'' \<mapsto> PyFloat 90] 1000 1000)
          = Inr w'
        \<and> scene w' ''scene_gpu_capacity_percent'' = Some (PyFloat 90)
        \<and> scene w' ''scene_cpu_capacity_percent'' = None
        \<and> config_file w' = None)
   \<and> (\<exists>w'. save_options example_modules
            (example_layout\<lparr>gpuCacheDefaultCapacity_doubleSpinBox := 50\<rparr>)
            (example_world None [''scene_gpu_capacity_percent'' \<mapsto> PyFloat 90] 1000 1000)
          = Inr w'
        \<and> scene w' ''scene_gpu_capacity_percent'' = Some (PyFloat 90)
        \<and> scene w' ''scene_cpu_capacity_percent'' = None)
   \<and> get_capacity_bytes False 50 90 1000 = get_capacity_bytes False 50 10 1000"
proof -
  let ?w = "example_world None [''scene_gpu_capacity_percent'' \<mapsto> PyFloat 90] 1000 1000"
  let ?L = "example_layout\<lparr>gpuCacheDefaultCapacity_doubleSpinBox := 50\<rparr>"
  have k: "CONFIG_SCENE_CAPACITY_OVERRIDE_KEY example_modules
             \<noteq> CONFIG_SCENE_GPU_CAPACITY_PERCENT_KEY example_modules"
    "CONFIG_SCENE_CAPACITY_OVERRIDE_KEY example_modules
             \<noteq> CONFIG_SCENE_CPU_CAPACITY_PERCENT_KEY example_modules"
    "CONFIG_SCENE_GPU_CAPACITY_PERCENT_KEY example_modules
             \<noteq> CONFIG_SCENE_CPU_CAPACITY_PERCENT_KEY example_modules"
    "CONFIG_GPU_CAPACITY_PERCENT_KEY example_modules
             \<noteq> CONFIG_CPU_CAPACITY_PERCENT_KEY example_modules"
    by (simp_all add: example_modules_def)
  have n: "CONFIG_SCENE_GPU_CAPACITY_PERCENT_KEY example_modules = ''scene_gpu_capacity_percent''"
    "CONFIG_SCENE_CPU_CAPACITY_PERCENT_KEY example_modules = ''scene_cpu_capacity_percent''"
    by (simp_all add: example_modules_def)
  have v: "scene ?w ''scene_gpu_capacity_percent'' = Some (PyFloat 90)"
    "scene ?w ''scene_cpu_capacity_percent'' = None"
    "config_file ?w = None" "imageCacheSceneSettings_groupBox example_layout = False"
    by (simp_all add: example_world_def example_layout_def)
  show ?thesis
    using override_flag_write_frame [OF k, of True ?w ?L 50 90 1000 10]
    by (auto simp: n v)
qed

subsection \<open>Filling the layout\<close>









end
